theory Spec2Isabelle
  imports Complex_Main "HOL-Library.AList"
begin

section \<open>Python values shared by both servers\<close>

text \<open>
  The two servers (\<^verbatim>\<open>davinci_resolve_mcp.py\<close> and \<^verbatim>\<open>editing_watcher.py\<close>) keep their
  state in Python dictionaries and lists. A dictionary is modelled as an association
  list in insertion order (Python dictionaries iterate in insertion order, and
  assigning to an existing key keeps its position), a Python \<^verbatim>\<open>int\<close> as \<open>int\<close>.
  Exceptions are values of \<open>py_error\<close>.

  The snapshot analyzer works on frame counts, which are integers; their sum is exact
  and their average is modelled as the exact quotient. The watcher's durations are
  JSON numbers, held as the rational value of the number (an integer or a float);
  comparing such a number with 0 is exact, but \<^verbatim>\<open>sum\<close>, \<^verbatim>\<open>/\<close> and \<^verbatim>\<open>round\<close> on them are
  the interpreter's binary floating-point operations. Their rounding is not modelled:
  the three operations are the fields of a parameter \<open>float_arith\<close> of the functions
  that use them.
\<close>

datatype py_error = TypeError | IndexError | KeyError | ZeroDivisionError

type_synonym ('k, 'v) dict = "('k \<times> 'v) list"

definition dict_get :: "('k, 'v) dict \<Rightarrow> 'k \<Rightarrow> 'v \<Rightarrow> 'v" where
  \<comment> \<open>\<^verbatim>\<open>d.get(k, default)\<close>\<close>
  "dict_get d k dflt = (case map_of d k of None \<Rightarrow> dflt | Some v \<Rightarrow> v)"

definition dict_set :: "('k, 'v) dict \<Rightarrow> 'k \<Rightarrow> 'v \<Rightarrow> ('k, 'v) dict" where
  \<comment> \<open>\<^verbatim>\<open>d[k] = v\<close>\<close>
  "dict_set d k v = AList.update k v d"

definition dict_item :: "('k, 'v) dict \<Rightarrow> 'k \<Rightarrow> py_error + 'v" where
  \<comment> \<open>\<^verbatim>\<open>d[k]\<close>, which raises on a missing key\<close>
  "dict_item d k = (case map_of d k of None \<Rightarrow> Inl KeyError | Some v \<Rightarrow> Inr v)"

definition list_index :: "nat \<Rightarrow> int \<Rightarrow> py_error + nat" where
  \<comment> \<open>the position that \<^verbatim>\<open>xs[i]\<close> reads in a list of length \<open>n\<close>: a negative
      index counts from the end, anything else outside raises\<close>
  "list_index n i =
     (if 0 \<le> i \<and> i < int n then Inr (nat i)
      else if i < 0 \<and> 0 \<le> i + int n then Inr (nat (i + int n))
      else Inl IndexError)"

record float_arith =
  float_sum :: "rat list \<Rightarrow> rat"
  float_div :: "rat \<Rightarrow> rat \<Rightarrow> rat"
  float_round2 :: "rat \<Rightarrow> rat"

text \<open>
  \<open>float_sum fa xs\<close> is the value of \<^verbatim>\<open>sum(xs)\<close>, \<open>float_div fa a b\<close> the value of
  \<^verbatim>\<open>a / b\<close> for a divisor other than zero, and \<open>float_round2 fa x\<close> the value of
  \<^verbatim>\<open>round(x, 2)\<close>. Division by zero raises whatever the arithmetic is.
\<close>

definition truediv :: "float_arith \<Rightarrow> rat \<Rightarrow> rat \<Rightarrow> py_error + rat" where
  \<comment> \<open>\<^verbatim>\<open>a / b\<close>\<close>
  "truediv fa a b = (if b = 0 then Inl ZeroDivisionError else Inr (float_div fa a b))"

definition int_trunc :: "rat \<Rightarrow> int" where
  \<comment> \<open>\<^verbatim>\<open>int(x)\<close> of a number: truncation towards zero\<close>
  "int_trunc q = (if 0 \<le> q then \<lfloor>q\<rfloor> else \<lceil>q\<rceil>)"

record 'p tracker =
  patterns :: 'p
  data_file :: "'p option"

text \<open>
  Both tracker classes hold the in-memory document \<^verbatim>\<open>self.patterns\<close> and write it
  whole to \<^verbatim>\<open>self.data_file\<close>. The field \<open>data_file\<close> is the content of that file
  (\<open>None\<close>: the file does not exist). \<^verbatim>\<open>save_patterns\<close> is the same in both classes.
\<close>

definition save_patterns :: "'p tracker \<Rightarrow> 'p tracker" where
  "save_patterns t = t\<lparr>data_file := Some (patterns t)\<rparr>"


section \<open>The snapshot analyzer: \<^verbatim>\<open>ResolveEditingTracker.analyze_cut_patterns\<close>\<close>

record clip =
  track_type :: string
  track_index :: int
  start :: int
  end' :: int
  duration :: int
  name :: string

record timeline_snapshot =
  timeline_name :: string
  frame_rate :: string
  resolution :: string
  track_count :: int
  timeline_duration :: int
  clips :: "clip list"

record cut_statistics =
  total_cuts :: nat
  average_cut_length :: rat
  shortest_cut :: int
  longest_cut :: int
  cut_types :: "(string, int) dict"
  median_cut_length :: int
  editing_pace :: string

text \<open>
  \<^verbatim>\<open>analyze_current_timeline\<close> asks the editing host; its answer is a parameter of the
  model: \<open>Inl msg\<close> is the dictionary \<^verbatim>\<open>{"error": msg}\<close>, \<open>Inr snapshot\<close> a snapshot.
  Clip positions and durations are frame counts.
\<close>

definition video_clips_of :: "timeline_snapshot \<Rightarrow> clip list" where
  \<comment> \<open>the filter on \<^verbatim>\<open>track_type\<close> and the stable \<^verbatim>\<open>sort(key=start)\<close>\<close>
  "video_clips_of snapshot =
     sort_key start (filter (\<lambda>c. track_type c = ''video'') (clips snapshot))"

definition bump :: "(string, int) dict \<Rightarrow> string \<Rightarrow> (string, int) dict" where
  \<comment> \<open>\<^verbatim>\<open>d[k] = d.get(k, 0) + 1\<close>\<close>
  "bump d k = dict_set d k (dict_get d k 0 + 1)"

definition cut_step ::
  "clip list \<Rightarrow> nat \<times> clip \<Rightarrow> int list \<times> (string, int) dict \<Rightarrow> int list \<times> (string, int) dict"
where
  \<comment> \<open>one round of \<^verbatim>\<open>for i, clip in enumerate(video_clips)\<close>\<close>
  "cut_step video_clips = (\<lambda>(i, clip) (cut_lengths, cut_types).
     let cut_lengths = (if 0 < duration clip then cut_lengths @ [duration clip] else cut_lengths);
         cut_types =
           (if 0 < i then
              let prev_clip = video_clips ! (i - 1);
                  gap = start clip - end' prev_clip
              in if gap = 0 then bump cut_types ''hard_cut''
                 else if 0 < gap then bump cut_types ''gap''
                 else bump cut_types ''overlap''
            else cut_types)
     in (cut_lengths, cut_types))"

definition cut_loop :: "clip list \<Rightarrow> int list \<times> (string, int) dict" where
  "cut_loop video_clips = fold (cut_step video_clips) (enumerate 0 video_clips) ([], [])"

definition list_min :: "int list \<Rightarrow> int" where
  "list_min xs = fold min (tl xs) (hd xs)"

definition list_max :: "int list \<Rightarrow> int" where
  "list_max xs = fold max (tl xs) (hd xs)"

definition analyze_cut_patterns :: "string + timeline_snapshot \<Rightarrow> string + cut_statistics" where
  "analyze_cut_patterns timeline_data =
     (case timeline_data of
        Inl msg \<Rightarrow> Inl msg
      | Inr snapshot \<Rightarrow>
          (case cut_loop (video_clips_of snapshot) of (cut_lengths, types) \<Rightarrow>
             if cut_lengths \<noteq> [] then
               Inr \<lparr> total_cuts = length cut_lengths,
                     average_cut_length = of_int (sum_list cut_lengths) / of_nat (length cut_lengths),
                     shortest_cut = list_min cut_lengths,
                     longest_cut = list_max cut_lengths,
                     cut_types = types,
                     median_cut_length = sort cut_lengths ! (length cut_lengths div 2),
                     editing_pace =
                       (if of_int (sum_list cut_lengths) / of_nat (length cut_lengths) < (120 :: rat)
                        then ''fast'' else ''slow'') \<rparr>
             else Inl ''No cuts found''))"

text \<open>The quantities the statements below speak about.\<close>

definition gap_at :: "clip list \<Rightarrow> nat \<Rightarrow> int" where
  \<comment> \<open>\<^verbatim>\<open>curr.start - prev.end\<close> for the pair ending at index \<open>i\<close>\<close>
  "gap_at vs i = start (vs ! i) - end' (vs ! (i - 1))"

definition count_cut :: "(string, int) dict \<Rightarrow> string \<Rightarrow> int" where
  \<comment> \<open>a counter of \<^verbatim>\<open>cut_types\<close>, a key never incremented counting as 0\<close>
  "count_cut ct k = dict_get ct k 0"

definition positive_durations :: "clip list \<Rightarrow> int list" where
  "positive_durations vs = filter (\<lambda>d. 0 < d) (map duration vs)"


definition hard_pairs :: "clip list \<Rightarrow> nat \<Rightarrow> nat" where
  \<comment> \<open>how many of the pairs ending at index \<open>1..k-1\<close> touch\<close>
  "hard_pairs vs k = length (filter (\<lambda>i. gap_at vs i = 0) [1..<k])"

definition gap_pairs :: "clip list \<Rightarrow> nat \<Rightarrow> nat" where
  "gap_pairs vs k = length (filter (\<lambda>i. 0 < gap_at vs i) [1..<k])"

definition overlap_pairs :: "clip list \<Rightarrow> nat \<Rightarrow> nat" where
  "overlap_pairs vs k = length (filter (\<lambda>i. gap_at vs i < 0) [1..<k])"


section \<open>The Resolve pattern store: tool usage and suggestions\<close>

text \<open>
  An action is \<^verbatim>\<open>{"timestamp", "type", "details"}\<close>; the payload \<open>details\<close> differs
  between the two servers, so the record is polymorphic in it. The clock
  (\<^verbatim>\<open>datetime.now().isoformat()\<close>) is the parameter \<open>now\<close>; the reads made during
  one call get the same value.
\<close>

record 'd action =
  timestamp :: string
  action_type :: string
  details :: 'd

datatype action_details =
    ToolData string string string
  | TimelineData timeline_snapshot
  | CutData cut_statistics

record editing_session =
  session_start_time :: string
  session_actions :: "action_details action list"

text \<open>
  Of the document of \<^verbatim>\<open>ResolveEditingTracker\<close> the keys \<^verbatim>\<open>editing_sessions\<close> and
  \<^verbatim>\<open>tool_usage\<close> are the ones the code reads or writes; the other four stay the
  empty dictionaries \<^verbatim>\<open>load_patterns\<close> creates and are left out.
\<close>

record resolve_patterns =
  editing_sessions :: "editing_session list"
  tool_usage :: "(string, (string, int) dict) dict"

definition load_patterns :: "'p \<Rightarrow> 'p option \<Rightarrow> 'p tracker" where
  \<comment> \<open>\<^verbatim>\<open>__init__\<close>: the file's document if the file exists, else the given empty one\<close>
  "load_patterns fresh file =
     \<lparr> patterns = (case file of None \<Rightarrow> fresh | Some doc \<Rightarrow> doc), data_file = file \<rparr>"

definition empty_resolve_patterns :: resolve_patterns where
  "empty_resolve_patterns = \<lparr> editing_sessions = [], tool_usage = [] \<rparr>"

definition track_editing_action ::
  "string \<Rightarrow> action_details \<Rightarrow> string \<Rightarrow> resolve_patterns tracker \<Rightarrow> resolve_patterns tracker"
where
  "track_editing_action kind payload now t =
     (let action = \<lparr> timestamp = now, action_type = kind, details = payload \<rparr>;
          sessions = editing_sessions (patterns t);
          sessions =
            (if sessions = []
             then sessions @ [\<lparr> session_start_time = now, session_actions = [] \<rparr>]
             else sessions);
          last_session = sessions ! (length sessions - 1);
          sessions = sessions[length sessions - 1 :=
                       last_session\<lparr>session_actions := session_actions last_session @ [action]\<rparr>]
      in save_patterns (t\<lparr>patterns := (patterns t)\<lparr>editing_sessions := sessions\<rparr>\<rparr>))"

definition track_tool_usage ::
  "string \<Rightarrow> string \<Rightarrow> string \<Rightarrow> resolve_patterns tracker
     \<Rightarrow> py_error + resolve_patterns tracker \<times> string"
where
  \<comment> \<open>the branch \<^verbatim>\<open>track_tool_usage\<close> of \<^verbatim>\<open>handle_call_tool\<close>\<close>
  "track_tool_usage tool_name page now t =
     (let usage = tool_usage (patterns t);
          usage = (if map_of usage page = None then dict_set usage page [] else usage)
      in case dict_item usage page of
           Inl e \<Rightarrow> Inl e
         | Inr tools \<Rightarrow>
             let usage = dict_set usage page
                           (dict_set tools tool_name (dict_get tools tool_name 0 + 1));
                 t = t\<lparr>patterns := (patterns t)\<lparr>tool_usage := usage\<rparr>\<rparr>
             in Inr (track_editing_action ''tool_usage'' (ToolData tool_name page now) now t,
                     ''Tracked usage of '' @ tool_name @ '' in '' @ page @ '' page''))"

definition usage_count :: "(string, (string, int) dict) dict \<Rightarrow> string \<Rightarrow> string \<Rightarrow> int" where
  \<comment> \<open>\<^verbatim>\<open>counters[page][tool_name]\<close>, a counter never incremented counting as 0\<close>
  "usage_count usage page tool_name = dict_get (dict_get usage page []) tool_name 0"

text \<open>
  The suggestions are f-strings; a suggestion is modelled by its template and the
  values put into it:
  \<^item> \<open>LearnShortcut tool page count\<close>: "Consider learning keyboard shortcuts for
    \{tool\} in \{page\} page (used \{count\} times)";
  \<^item> \<open>UseCutPage\<close>: "Your fast editing pace suggests using the Cut page for quicker edits";
  \<^item> \<open>PacedContent avg word\<close>: "Your average cut length of \{avg:.1f\} frames suggests
    \{word\} paced content";
  \<^item> \<open>KeepEditing\<close>: "Keep editing! I'll provide more specific suggestions as I learn
    your patterns."
\<close>

datatype suggestion =
    LearnShortcut string string int
  | UseCutPage
  | PacedContent rat string
  | KeepEditing

definition shortcut_suggestions ::
  "(string, (string, int) dict) dict \<Rightarrow> suggestion list \<Rightarrow> suggestion list"
where
  \<comment> \<open>the two nested \<^verbatim>\<open>for ... in ....items()\<close> loops\<close>
  "shortcut_suggestions usage suggestions =
     fold (\<lambda>(page, tools) acc.
             fold (\<lambda>(tool_name, count) acc.
                     if 10 < count then acc @ [LearnShortcut tool_name page count] else acc)
                  tools acc)
          usage suggestions"

definition pace_words :: "string list" where
  "pace_words = [''quick'', ''medium'', ''slow'']"

definition suggest_workflow_optimization ::
  "resolve_patterns tracker \<Rightarrow> string + timeline_snapshot \<Rightarrow> suggestion list"
where
  "suggest_workflow_optimization t timeline_data =
     (let suggestions = shortcut_suggestions (tool_usage (patterns t)) [];
          suggestions =
            (case analyze_cut_patterns timeline_data of
               Inl msg \<Rightarrow> suggestions
             | Inr timeline_patterns \<Rightarrow>
                 let suggestions =
                       (if editing_pace timeline_patterns = ''fast''
                        then suggestions @ [UseCutPage] else suggestions);
                     avg_cut = average_cut_length timeline_patterns
                 in if 0 < avg_cut
                    then suggestions @
                           [PacedContent avg_cut
                              (pace_words ! nat (min 2 (int_trunc (avg_cut / 100))))]
                    else suggestions)
      in if suggestions = [] then [KeepEditing] else suggestions)"


section \<open>The watcher's pattern store: \<^verbatim>\<open>EditingBehaviorTracker\<close>\<close>

datatype watcher_details =
    WorkflowStep string "rat option"
  | ProjectSave string string int

text \<open>
  A cut as the \<^verbatim>\<open>track_cut\<close> handler writes it: \<^verbatim>\<open>duration\<close> and \<^verbatim>\<open>reason\<close> come from
  \<^verbatim>\<open>arguments.get(...)\<close>, so each is \<open>None\<close> when the caller left it out (both are
  optional in the tool's schema).
\<close>

record cut =
  cut_type :: string
  cut_duration :: "rat option"
  reason :: "string option"
  cut_timestamp :: string

record session =
  project :: string
  start_time :: string
  actions :: "watcher_details action list"
  cuts :: "cut list"
  exports :: "string list"

text \<open>
  Of the watcher's document only \<^verbatim>\<open>sessions\<close> is read or written; the other four
  keys stay as \<^verbatim>\<open>load_patterns\<close> creates them and are left out.
\<close>

record watcher_patterns =
  sessions :: "session list"

definition empty_watcher_patterns :: watcher_patterns where
  "empty_watcher_patterns = \<lparr> sessions = [] \<rparr>"

definition track_session_start ::
  "string \<Rightarrow> string \<Rightarrow> watcher_patterns tracker \<Rightarrow> watcher_patterns tracker \<times> int"
where
  "track_session_start project_path now t =
     (let new_session = \<lparr> project = project_path, start_time = now,
                          actions = [], cuts = [], exports = [] \<rparr>;
          t = t\<lparr>patterns := (patterns t)\<lparr>sessions := sessions (patterns t) @ [new_session]\<rparr>\<rparr>
      in (t, int (length (sessions (patterns t))) - 1))"

definition track_action ::
  "int \<Rightarrow> string \<Rightarrow> watcher_details \<Rightarrow> string \<Rightarrow> watcher_patterns tracker
     \<Rightarrow> py_error + watcher_patterns tracker"
where
  "track_action session_id kind payload now t =
     (let ss = sessions (patterns t)
      in if session_id < int (length ss) then
           (case list_index (length ss) session_id of
              Inl e \<Rightarrow> Inl e
            | Inr j \<Rightarrow>
                let s = ss ! j;
                    s = s\<lparr>actions := actions s @
                          [\<lparr> timestamp = now, action_type = kind, details = payload \<rparr>]\<rparr>
                in Inr (save_patterns (t\<lparr>patterns := (patterns t)\<lparr>sessions := ss[j := s]\<rparr>\<rparr>)))
         else Inr t)"

record cut_insights =
  insight_average_cut_length :: rat
  insight_total_cuts :: nat
  cut_type_preferences :: "(string, int) dict"
  suggested_cut_length :: rat

fun fold_err :: "('a \<Rightarrow> 's \<Rightarrow> py_error + 's) \<Rightarrow> 'a list \<Rightarrow> 's \<Rightarrow> py_error + 's" where
  "fold_err f [] s = Inr s"
| "fold_err f (x # xs) s = (case f x s of Inl e \<Rightarrow> Inl e | Inr s' \<Rightarrow> fold_err f xs s')"

definition scan_cut ::
  "cut \<Rightarrow> rat list \<times> (string, int) dict \<Rightarrow> py_error + rat list \<times> (string, int) dict"
where
  \<comment> \<open>the body of \<^verbatim>\<open>for cut in session.get("cuts", [])\<close>. The default of
      \<^verbatim>\<open>cut.get("duration", 0)\<close> is for a missing key only; \<^verbatim>\<open>track_cut\<close> always writes
      the key, with the value \<^verbatim>\<open>None\<close> when no duration was given, and \<^verbatim>\<open>None > 0\<close>
      raises\<close>
  "scan_cut c = (\<lambda>(cut_lengths, cut_frequencies).
     case cut_duration c of
       None \<Rightarrow> Inl TypeError
     | Some len \<Rightarrow>
         Inr (if 0 < len then cut_lengths @ [len] else cut_lengths,
              bump cut_frequencies (cut_type c)))"

definition watcher_analyze_cut_patterns ::
  "float_arith \<Rightarrow> watcher_patterns \<Rightarrow> py_error + cut_insights option"
where
  \<comment> \<open>\<^verbatim>\<open>EditingBehaviorTracker.analyze_cut_patterns\<close>; \<open>Inr None\<close> is the result \<^verbatim>\<open>{}\<close>\<close>
  "watcher_analyze_cut_patterns fa doc =
     (case fold_err (\<lambda>s. fold_err scan_cut (cuts s)) (sessions doc) ([], []) of
        Inl e \<Rightarrow> Inl e
      | Inr (cut_lengths, cut_frequencies) \<Rightarrow>
          if cut_lengths \<noteq> [] then
            (case truediv fa (float_sum fa cut_lengths) (of_nat (length cut_lengths)) of
               Inl e \<Rightarrow> Inl e
             | Inr avg \<Rightarrow>
                 Inr (Some \<lparr> insight_average_cut_length = avg,
                             insight_total_cuts = length cut_lengths,
                             cut_type_preferences = cut_frequencies,
                             suggested_cut_length = float_round2 fa avg \<rparr>))
          else Inr None)"

text \<open>
  The \<^verbatim>\<open>track_cut\<close> branch of the watcher's \<^verbatim>\<open>handle_call_tool\<close>. The argument
  \<open>arg_session_id\<close> is the value of \<^verbatim>\<open>int(arguments["session_id"])\<close>. The reply
  \<open>Some (TrackedCut cut_type session_id)\<close> is the text "Tracked \{cut_type\} cut for
  session \{session_id\}"; \<open>None\<close> is Python's \<^verbatim>\<open>None\<close>, returned when the function
  body ends without a \<^verbatim>\<open>return\<close>.
\<close>

record track_cut_arguments =
  arg_session_id :: int
  arg_cut_type :: string
  arg_duration :: "rat option"
  arg_reason :: "string option"

datatype reply = TrackedCut string int

definition handle_track_cut ::
  "track_cut_arguments \<Rightarrow> string \<Rightarrow> watcher_patterns tracker
     \<Rightarrow> py_error + watcher_patterns tracker \<times> reply option"
where
  "handle_track_cut arguments now t =
     (let session_id = arg_session_id arguments;
          cut_data = \<lparr> cut_type = arg_cut_type arguments, cut_duration = arg_duration arguments,
                       reason = arg_reason arguments, cut_timestamp = now \<rparr>;
          ss = sessions (patterns t)
      in if session_id < int (length ss) then
           (case list_index (length ss) session_id of
              Inl e \<Rightarrow> Inl e
            | Inr j \<Rightarrow>
                let s = ss ! j;
                    s = s\<lparr>cuts := cuts s @ [cut_data]\<rparr>
                in Inr (save_patterns (t\<lparr>patterns := (patterns t)\<lparr>sessions := ss[j := s]\<rparr>\<rparr>),
                        Some (TrackedCut (arg_cut_type arguments) session_id)))
         else Inr (t, None))"

definition all_cuts :: "watcher_patterns \<Rightarrow> cut list" where
  \<comment> \<open>the cuts of all sessions, in the order the nested loops visit them\<close>
  "all_cuts doc = concat (map cuts (sessions doc))"

definition positive_lengths :: "cut list \<Rightarrow> rat list" where
  \<comment> \<open>the durations that are numbers and positive\<close>
  "positive_lengths cs =
     concat (map (\<lambda>c. case cut_duration c of
                         None \<Rightarrow> []
                       | Some len \<Rightarrow> if 0 < len then [len] else []) cs)"


section \<open>Derived notions and example inputs\<close>

definition video_clip :: "int \<Rightarrow> int \<Rightarrow> int \<Rightarrow> clip" where
  "video_clip s e d = \<lparr> track_type = ''video'', track_index = 1, start = s, end' = e,
                        duration = d, name = [] \<rparr>"

definition snapshot_of :: "clip list \<Rightarrow> timeline_snapshot" where
  "snapshot_of cs = \<lparr> timeline_name = ''Timeline 1'', frame_rate = ''24'',
                      resolution = ''1920x1080'', track_count = 2, timeline_duration = 300,
                      clips = cs \<rparr>"

definition scenario :: timeline_snapshot where
  \<comment> \<open>three video clips: the second starts where the first ends, the third overlaps the second\<close>
  "scenario = snapshot_of [video_clip 0 100 100, video_clip 100 250 150, video_clip 240 300 60]"

definition four_cuts :: timeline_snapshot where
  "four_cuts = snapshot_of [video_clip 0 10 10, video_clip 10 30 20, video_clip 30 60 30,
                            video_clip 60 100 40]"

definition shuffled_cuts :: timeline_snapshot where
  "shuffled_cuts = snapshot_of [video_clip 60 100 40, video_clip 0 10 10, video_clip 30 60 30,
                                video_clip 10 30 20]"

definition boundary_cuts :: timeline_snapshot where
  "boundary_cuts = snapshot_of [video_clip 0 119 119, video_clip 119 240 121]"


definition empty_frames :: timeline_snapshot where
  "empty_frames = snapshot_of [video_clip 0 0 0, video_clip 5 5 0]"

fun track_tool_usage_times ::
  "nat \<Rightarrow> string \<Rightarrow> string \<Rightarrow> string \<Rightarrow> resolve_patterns tracker
     \<Rightarrow> py_error + resolve_patterns tracker"
where
  "track_tool_usage_times 0 tool_name page now t = Inr t"
| "track_tool_usage_times (Suc n) tool_name page now t =
     (case track_tool_usage tool_name page now t of
        Inl e \<Rightarrow> Inl e
      | Inr (t', reply) \<Rightarrow> track_tool_usage_times n tool_name page now t')"

definition fresh_resolve_tracker :: "resolve_patterns tracker" where
  "fresh_resolve_tracker = load_patterns empty_resolve_patterns None"

definition fresh_snapshot :: timeline_snapshot where
  "fresh_snapshot = snapshot_of []"

definition busy_usage :: "(string, (string, int) dict) dict" where
  "busy_usage = [(''color'', [(''Qualifier'', 11), (''Curves'', 10)]), (''edit'', [(''Blade'', 25)])]"

definition busy_resolve_tracker :: "resolve_patterns tracker" where
  "busy_resolve_tracker =
     \<lparr> patterns = \<lparr> editing_sessions = [], tool_usage = busy_usage \<rparr>, data_file = None \<rparr>"

definition frequent_tools :: "(string, (string, int) dict) dict \<Rightarrow> suggestion list" where
  \<comment> \<open>one shortcut suggestion for every (page, tool) used more than 10 times, in dictionary order\<close>
  "frequent_tools usage =
     concat (map (\<lambda>(page, tools).
                    map (\<lambda>(tool_name, count). LearnShortcut tool_name page count)
                        (filter (\<lambda>(tool_name, count). 10 < count) tools))
                 usage)"

definition cut_frequencies_of :: "cut list \<Rightarrow> (string, int) dict" where
  \<comment> \<open>\<^verbatim>\<open>cut_frequencies\<close> after the loops have seen the cuts \<open>cs\<close>\<close>
  "cut_frequencies_of cs = fold (\<lambda>c freq. bump freq (cut_type c)) cs []"

definition fresh_watcher_tracker :: "watcher_patterns tracker" where
  "fresh_watcher_tracker = load_patterns empty_watcher_patterns None"

definition one_session_tracker :: "watcher_patterns tracker" where
  "one_session_tracker =
     fst (track_session_start ''/projects/a.drp'' ''2024-01-01T10:00:00'' fresh_watcher_tracker)"

definition two_session_tracker :: "watcher_patterns tracker" where
  "two_session_tracker =
     fst (track_session_start ''/projects/b.drp'' ''2024-01-01T11:00:00'' one_session_tracker)"

definition import_step :: "watcher_details action" where
  "import_step = \<lparr> timestamp = ''2024-01-01T12:00:00'', action_type = ''workflow_step'',
                    details = WorkflowStep ''import'' None \<rparr>"

definition hard_cut_arguments :: "int \<Rightarrow> track_cut_arguments" where
  "hard_cut_arguments session_id =
     \<lparr> arg_session_id = session_id, arg_cut_type = ''hard_cut'', arg_duration = Some 2,
       arg_reason = None \<rparr>"

definition untimed_cut_arguments :: "int \<Rightarrow> track_cut_arguments" where
  \<comment> \<open>a \<^verbatim>\<open>track_cut\<close> call that leaves out the optional \<^verbatim>\<open>duration\<close> and \<^verbatim>\<open>reason\<close>\<close>
  "untimed_cut_arguments session_id =
     \<lparr> arg_session_id = session_id, arg_cut_type = ''jump_cut'', arg_duration = None,
       arg_reason = None \<rparr>"


section \<open>Facts about the analyzer loop\<close>

lemma dict_get_bump:
  "dict_get (bump d k) k' 0 = (if k' = k then dict_get d k 0 + 1 else dict_get d k' 0)"
  by (simp add: bump_def dict_get_def dict_set_def update_conv')

lemma cut_step_lengths:
  "fst (cut_step vs (i, c) (cl, ct)) = (if 0 < duration c then cl @ [duration c] else cl)"
  by (simp add: cut_step_def Let_def)

lemma cut_step_types:
  "snd (cut_step vs (i, vs ! i) (cl, ct)) =
     (if 0 < i then
        (if gap_at vs i = 0 then bump ct ''hard_cut''
         else if 0 < gap_at vs i then bump ct ''gap''
         else bump ct ''overlap'')
      else ct)"
  by (simp add: cut_step_def Let_def gap_at_def)

lemma cut_loop_prefix_Suc:
  assumes "k < length vs"
  shows "fold (cut_step vs) (enumerate 0 (take (Suc k) vs)) s =
         cut_step vs (k, vs ! k) (fold (cut_step vs) (enumerate 0 (take k vs)) s)"
  using assms by (simp add: take_Suc_conv_app_nth enumerate_append_eq min_def)

lemma upt_one_Suc: "[1..<Suc k] = (if 0 < k then [1..<k] @ [k] else [])"
  by simp

lemma cut_loop_prefix:
  assumes "k \<le> length vs"
  shows "fst (fold (cut_step vs) (enumerate 0 (take k vs)) ([], [])) = positive_durations (take k vs)
       \<and> (\<forall>key. count_cut (snd (fold (cut_step vs) (enumerate 0 (take k vs)) ([], []))) key =
            (if key = ''hard_cut'' then int (hard_pairs vs k)
             else if key = ''gap'' then int (gap_pairs vs k)
             else if key = ''overlap'' then int (overlap_pairs vs k) else 0))"
  using assms
proof (induction k)
  case 0
  then show ?case
    by (simp add: positive_durations_def count_cut_def dict_get_def hard_pairs_def gap_pairs_def overlap_pairs_def)
next
  case (Suc k)
  obtain cl ct where s: "fold (cut_step vs) (enumerate 0 (take k vs)) ([], []) = (cl, ct)"
    by (cases "fold (cut_step vs) (enumerate 0 (take k vs)) ([], [])")
  from Suc have k: "k < length vs" by simp
  from Suc s have cl: "cl = positive_durations (take k vs)" by simp
  from Suc s have ct: "\<And>key. count_cut ct key =
            (if key = ''hard_cut'' then int (hard_pairs vs k)
             else if key = ''gap'' then int (gap_pairs vs k)
             else if key = ''overlap'' then int (overlap_pairs vs k) else 0)" by simp
  have a: "fst (cut_step vs (k, vs ! k) (cl, ct)) = positive_durations (take (Suc k) vs)"
    using k by (simp add: cut_step_lengths cl positive_durations_def take_Suc_conv_app_nth)
  have b: "count_cut (snd (cut_step vs (k, vs ! k) (cl, ct))) key =
            (if key = ''hard_cut'' then int (hard_pairs vs (Suc k))
             else if key = ''gap'' then int (gap_pairs vs (Suc k))
             else if key = ''overlap'' then int (overlap_pairs vs (Suc k)) else 0)" for key
    using ct[of key] ct[of "''hard_cut''"] ct[of "''gap''"] ct[of "''overlap''"]
    unfolding cut_step_types count_cut_def hard_pairs_def gap_pairs_def overlap_pairs_def upt_one_Suc
    by (simp add: dict_get_bump)
  show ?case
    unfolding cut_loop_prefix_Suc[OF k] s using a b by simp
qed

lemma cut_loop_lengths: "fst (cut_loop vs) = positive_durations vs"
  using cut_loop_prefix[of "length vs" vs] by (simp add: cut_loop_def)

lemma cut_loop_counts:
  "count_cut (snd (cut_loop vs)) key =
     (if key = ''hard_cut'' then int (hard_pairs vs (length vs))
      else if key = ''gap'' then int (gap_pairs vs (length vs))
      else if key = ''overlap'' then int (overlap_pairs vs (length vs)) else 0)"
  using cut_loop_prefix[of "length vs" vs] by (simp add: cut_loop_def)

lemma sign_partition:
  "length (filter (\<lambda>i. f i = (0::int)) xs) + length (filter (\<lambda>i. 0 < f i) xs)
     + length (filter (\<lambda>i. f i < 0) xs) = length xs"
  by (induction xs) auto

lemma pairs_partition: "hard_pairs vs k + gap_pairs vs k + overlap_pairs vs k = k - 1"
  unfolding hard_pairs_def gap_pairs_def overlap_pairs_def
  using sign_partition[of "gap_at vs" "[1..<k]"] by simp

lemma analyze_cut_patterns_Inr:
  "analyze_cut_patterns (Inr snapshot) =
     (let cut_lengths = positive_durations (video_clips_of snapshot) in
      if cut_lengths \<noteq> [] then
        Inr \<lparr> total_cuts = length cut_lengths,
              average_cut_length = of_int (sum_list cut_lengths) / of_nat (length cut_lengths),
              shortest_cut = list_min cut_lengths,
              longest_cut = list_max cut_lengths,
              cut_types = snd (cut_loop (video_clips_of snapshot)),
              median_cut_length = sort cut_lengths ! (length cut_lengths div 2),
              editing_pace =
                (if of_int (sum_list cut_lengths) / of_nat (length cut_lengths) < (120 :: rat)
                 then ''fast'' else ''slow'') \<rparr>
      else Inl ''No cuts found'')"
  using cut_loop_lengths[of "video_clips_of snapshot"]
  by (cases "cut_loop (video_clips_of snapshot)") (simp add: analyze_cut_patterns_def Let_def)

lemma scenario_video_clips:
  "video_clips_of scenario = [video_clip 0 100 100, video_clip 100 250 150, video_clip 240 300 60]"
  by (simp add: scenario_def snapshot_of_def video_clips_of_def video_clip_def)





section \<open>The snapshot analyzer: classification of adjacent pairs\<close>

text \<open>
  Claim C1, as stated, speaks of every non-empty list of video clips. The snapshot
  \<open>empty_frames\<close> has two video clips, both of duration zero: the function answers
  "No cuts found" and returns no \<^verbatim>\<open>cut_types\<close> at all, so there are no counters that
  could add up to \<open>n - 1 = 1\<close>.
\<close>

theorem cut_types_absent_without_cut_lengths:
  "length (video_clips_of empty_frames) = 2
   \<and> analyze_cut_patterns (Inr empty_frames) = Inl ''No cuts found''"
  by (simp add: analyze_cut_patterns_Inr empty_frames_def snapshot_of_def video_clips_of_def
        video_clip_def positive_durations_def)

text \<open>
  Claim C1, amended. In \<^verbatim>\<open>analyze_cut_patterns\<close>, with \<open>vs\<close> the video clips of the snapshot
  in ascending order of start and \<open>n\<close> their number, the loop classifies the pair
  ending at each index \<open>i = 1..n-1\<close> by \<open>gap = start (vs ! i) - end (vs ! (i - 1))\<close>: the
  counter \<^verbatim>\<open>hard_cut\<close> is the number of pairs with \<open>gap = 0\<close>, \<^verbatim>\<open>gap\<close> the number with
  \<open>gap > 0\<close>, \<^verbatim>\<open>overlap\<close> the number with \<open>gap < 0\<close>; each pair is counted once. If at
  least one video clip has a positive duration, the function returns statistics, their
  \<^verbatim>\<open>cut_types\<close> are these counters, and the three counters add up to \<open>n - 1\<close>. If no
  video clip has a positive duration, the function returns the error "No cuts found"
  and the counters of the loop are dropped.
\<close>

theorem cut_types_classify_pairs:
  "(let vs = video_clips_of snapshot; ct = snd (cut_loop vs); n = length vs in
      sorted (map start vs)
    \<and> set vs = {c \<in> set (clips snapshot). track_type c = ''video''}
    \<and> n = length (filter (\<lambda>c. track_type c = ''video'') (clips snapshot))
    \<and> count_cut ct ''hard_cut'' = int (hard_pairs vs n)
    \<and> count_cut ct ''gap'' = int (gap_pairs vs n)
    \<and> count_cut ct ''overlap'' = int (overlap_pairs vs n)
    \<and> hard_pairs vs n + gap_pairs vs n + overlap_pairs vs n = n - 1
    \<and> (if \<exists>c \<in> set vs. 0 < duration c
        then \<exists>r. analyze_cut_patterns (Inr snapshot) = Inr r
               \<and> cut_types r = ct
               \<and> count_cut (cut_types r) ''gap'' + count_cut (cut_types r) ''hard_cut''
                   + count_cut (cut_types r) ''overlap'' = int n - 1
        else analyze_cut_patterns (Inr snapshot) = Inl ''No cuts found''))"
proof -
  define vs where "vs = video_clips_of snapshot"
  have sum: "hard_pairs vs (length vs) + gap_pairs vs (length vs) + overlap_pairs vs (length vs)
               = length vs - 1"
    by (rule pairs_partition)
  have positive: "(positive_durations vs \<noteq> []) = (\<exists>c \<in> set vs. 0 < duration c)"
    by (auto simp: positive_durations_def filter_empty_conv)
  have total: "count_cut (snd (cut_loop vs)) ''gap'' + count_cut (snd (cut_loop vs)) ''hard_cut''
                 + count_cut (snd (cut_loop vs)) ''overlap'' = int (length vs) - 1"
    if "vs \<noteq> []"
  proof -
    from that have "int (length vs - 1) = int (length vs) - 1"
      by (cases vs) simp_all
    moreover have "int (hard_pairs vs (length vs)) + int (gap_pairs vs (length vs))
                     + int (overlap_pairs vs (length vs)) = int (length vs - 1)"
      using arg_cong[OF sum, of int] by simp
    ultimately show ?thesis by (simp add: cut_loop_counts)
  qed
  have returned: "\<exists>r. analyze_cut_patterns (Inr snapshot) = Inr r
               \<and> cut_types r = snd (cut_loop vs)
               \<and> count_cut (cut_types r) ''gap'' + count_cut (cut_types r) ''hard_cut''
                   + count_cut (cut_types r) ''overlap'' = int (length vs) - 1"
    if "\<exists>c \<in> set vs. 0 < duration c"
  proof -
    from that have ne: "vs \<noteq> []" by auto
    from that positive have "positive_durations (video_clips_of snapshot) \<noteq> []"
      by (simp add: vs_def)
    then show ?thesis
      unfolding analyze_cut_patterns_Inr using total[OF ne]
      by (simp add: Let_def vs_def)
  qed
  have refused: "analyze_cut_patterns (Inr snapshot) = Inl ''No cuts found''"
    if "\<not> (\<exists>c \<in> set vs. 0 < duration c)"
  proof -
    from that positive have "positive_durations (video_clips_of snapshot) = []"
      by (simp add: vs_def)
    then show ?thesis
      unfolding analyze_cut_patterns_Inr by (simp add: Let_def)
  qed
  have outcome: "(if \<exists>c \<in> set vs. 0 < duration c
        then \<exists>r. analyze_cut_patterns (Inr snapshot) = Inr r
               \<and> cut_types r = snd (cut_loop vs)
               \<and> count_cut (cut_types r) ''gap'' + count_cut (cut_types r) ''hard_cut''
                   + count_cut (cut_types r) ''overlap'' = int (length vs) - 1
        else analyze_cut_patterns (Inr snapshot) = Inl ''No cuts found'')"
    using returned refused by (cases "\<exists>c \<in> set vs. 0 < duration c") simp_all
  have sorted: "sorted (map start vs)"
    and members: "set vs = {c \<in> set (clips snapshot). track_type c = ''video''}"
    and number: "length vs = length (filter (\<lambda>c. track_type c = ''video'') (clips snapshot))"
    by (simp_all add: vs_def video_clips_of_def)
  have counts: "count_cut (snd (cut_loop vs)) ''hard_cut'' = int (hard_pairs vs (length vs))"
    "count_cut (snd (cut_loop vs)) ''gap'' = int (gap_pairs vs (length vs))"
    "count_cut (snd (cut_loop vs)) ''overlap'' = int (overlap_pairs vs (length vs))"
    by (simp_all add: cut_loop_counts)
  from sorted members number counts sum outcome
  show ?thesis
    unfolding Let_def vs_def[symmetric] by (intro conjI)
qed

theorem cut_types_classify_pairs_witness:
  "\<exists>r. analyze_cut_patterns (Inr scenario) = Inr r
      \<and> count_cut (cut_types r) ''hard_cut'' = 1
      \<and> count_cut (cut_types r) ''gap'' = 0
      \<and> count_cut (cut_types r) ''overlap'' = 1
      \<and> count_cut (cut_types r) ''gap'' + count_cut (cut_types r) ''hard_cut''
          + count_cut (cut_types r) ''overlap'' = 3 - 1"
proof -
  have positive: "\<exists>c \<in> set (video_clips_of scenario). 0 < duration c"
    by (simp add: scenario_video_clips video_clip_def)
  have facts: "count_cut (snd (cut_loop (video_clips_of scenario))) ''hard_cut'' = 1
     \<and> count_cut (snd (cut_loop (video_clips_of scenario))) ''gap'' = 0
     \<and> count_cut (snd (cut_loop (video_clips_of scenario))) ''overlap'' = 1
     \<and> (\<exists>r. analyze_cut_patterns (Inr scenario) = Inr r
            \<and> cut_types r = snd (cut_loop (video_clips_of scenario))
            \<and> count_cut (cut_types r) ''gap'' + count_cut (cut_types r) ''hard_cut''
                + count_cut (cut_types r) ''overlap'' = 3 - 1)"
    using cut_types_classify_pairs[of scenario] positive
    by (simp add: Let_def scenario_video_clips hard_pairs_def gap_pairs_def overlap_pairs_def
          gap_at_def video_clip_def)
  then obtain r where "analyze_cut_patterns (Inr scenario) = Inr r"
    "cut_types r = snd (cut_loop (video_clips_of scenario))"
    "count_cut (cut_types r) ''gap'' + count_cut (cut_types r) ''hard_cut''
       + count_cut (cut_types r) ''overlap'' = 3 - 1"
    by blast
  with facts show ?thesis by metis
qed


section \<open>The snapshot analyzer: cut-length statistics\<close>

lemma positive_durations_four_cuts:
  "positive_durations (video_clips_of four_cuts) = [10, 20, 30, 40]"
  by (simp add: four_cuts_def snapshot_of_def video_clips_of_def video_clip_def positive_durations_def)

lemma positive_durations_shuffled_cuts:
  "positive_durations (video_clips_of shuffled_cuts) = [10, 20, 30, 40]"
  by (simp add: shuffled_cuts_def snapshot_of_def video_clips_of_def video_clip_def positive_durations_def)

lemma sort_four: "sort [10, 20, 30, 40 :: int] ! 2 = 30"
  by simp

lemma positive_durations_boundary_cuts:
  "positive_durations (video_clips_of boundary_cuts) = [119, 121]"
  by (simp add: boundary_cuts_def snapshot_of_def video_clips_of_def video_clip_def positive_durations_def)


text \<open>
  Claim C2. Whenever \<^verbatim>\<open>analyze_cut_patterns\<close> returns statistics, the cut-length list is
  not empty, the index \<open>len div 2\<close> lies inside the sorted list, and
  \<^verbatim>\<open>median_cut_length\<close> is the element of the sorted list at that index. For the
  cut lengths 10, 20, 30, 40 this is 30, not the average 25 of the two middle values.
\<close>

theorem median_floor_index:
  "(\<forall>r. analyze_cut_patterns (Inr snapshot) = Inr r \<longrightarrow>
       (let cut_lengths = positive_durations (video_clips_of snapshot) in
          cut_lengths \<noteq> []
        \<and> length cut_lengths div 2 < length (sort cut_lengths)
        \<and> median_cut_length r = sort cut_lengths ! (length cut_lengths div 2)))
   \<and> positive_durations (video_clips_of four_cuts) = [10, 20, 30, 40]
   \<and> (\<exists>r. analyze_cut_patterns (Inr four_cuts) = Inr r
          \<and> median_cut_length r = 30
          \<and> rat_of_int (median_cut_length r) \<noteq> (20 + 30) / 2)"
proof -
  have general: "cut_lengths \<noteq> []
        \<and> length cut_lengths div 2 < length (sort cut_lengths)
        \<and> median_cut_length r = sort cut_lengths ! (length cut_lengths div 2)"
    if "analyze_cut_patterns (Inr snapshot) = Inr r"
      and "cut_lengths = positive_durations (video_clips_of snapshot)" for r cut_lengths
    using that unfolding analyze_cut_patterns_Inr
    by (auto simp: Let_def split: if_splits)
  have four: "\<exists>r. analyze_cut_patterns (Inr four_cuts) = Inr r
          \<and> median_cut_length r = 30
          \<and> rat_of_int (median_cut_length r) \<noteq> (20 + 30) / 2"
    unfolding analyze_cut_patterns_Inr positive_durations_four_cuts
    by (simp add: Let_def)
  show ?thesis
    using general four positive_durations_four_cuts by (simp add: Let_def)
qed

theorem median_floor_index_witness:
  "\<exists>r. analyze_cut_patterns (Inr shuffled_cuts) = Inr r \<and> median_cut_length r = 30"
proof -
  have "\<exists>r. analyze_cut_patterns (Inr shuffled_cuts) = Inr r"
    unfolding analyze_cut_patterns_Inr positive_durations_shuffled_cuts by (simp add: Let_def)
  then obtain r where r: "analyze_cut_patterns (Inr shuffled_cuts) = Inr r" ..
  have "median_cut_length r = 30"
    using median_floor_index[of shuffled_cuts] r
    by (simp add: Let_def positive_durations_shuffled_cuts)
  with r show ?thesis by blast
qed

text \<open>
  Claim C3. Whenever \<^verbatim>\<open>analyze_cut_patterns\<close> returns statistics, \<^verbatim>\<open>editing_pace\<close> is
  "fast" exactly when \<^verbatim>\<open>average_cut_length\<close> is below 120 and "slow" otherwise; an
  average of exactly 120 gives "slow".
\<close>

theorem editing_pace_threshold:
  assumes "analyze_cut_patterns timeline_data = Inr r"
  shows "(editing_pace r = ''fast'') = (average_cut_length r < 120)
       \<and> (editing_pace r \<noteq> ''fast'' \<longrightarrow> editing_pace r = ''slow'')
       \<and> (average_cut_length r = 120 \<longrightarrow> editing_pace r = ''slow'')"
proof -
  from assms obtain snapshot where td: "timeline_data = Inr snapshot"
    by (cases timeline_data) (auto simp: analyze_cut_patterns_def)
  show ?thesis
    using assms unfolding td analyze_cut_patterns_Inr
    by (auto simp: Let_def split: if_splits)
qed

theorem editing_pace_threshold_witness:
  "(\<exists>r. analyze_cut_patterns (Inr boundary_cuts) = Inr r \<and> average_cut_length r = 120
          \<and> editing_pace r = ''slow'')
   \<and> (\<exists>r. analyze_cut_patterns (Inr scenario) = Inr r \<and> average_cut_length r = 310 / 3
          \<and> editing_pace r = ''fast'')"
proof -
  have "\<exists>r. analyze_cut_patterns (Inr boundary_cuts) = Inr r \<and> average_cut_length r = 120"
    unfolding analyze_cut_patterns_Inr positive_durations_boundary_cuts by (simp add: Let_def)
  then obtain r1 where r1: "analyze_cut_patterns (Inr boundary_cuts) = Inr r1"
    "average_cut_length r1 = 120" by blast
  have slow: "editing_pace r1 = ''slow''"
    using editing_pace_threshold[OF r1(1)] r1(2) by blast
  have pd: "positive_durations (video_clips_of scenario) = [100, 150, 60]"
    unfolding scenario_video_clips by (simp add: positive_durations_def video_clip_def)
  have "\<exists>r. analyze_cut_patterns (Inr scenario) = Inr r \<and> average_cut_length r = 310 / 3"
    unfolding analyze_cut_patterns_Inr pd by (simp add: Let_def)
  then obtain r2 where r2: "analyze_cut_patterns (Inr scenario) = Inr r2"
    "average_cut_length r2 = 310 / 3" by blast
  have "average_cut_length r2 < 120"
    unfolding r2(2) by simp
  then have fast: "editing_pace r2 = ''fast''"
    using editing_pace_threshold[OF r2(1)] by blast
  from r1 slow r2 fast show ?thesis by blast
qed





section \<open>The Resolve pattern store: tool-usage counters\<close>

lemma dict_get_dict_set:
  "dict_get (dict_set d k v) k' dflt = (if k' = k then v else dict_get d k' dflt)"
  by (simp add: dict_get_def dict_set_def update_conv')

lemma tool_usage_track_editing_action:
  "tool_usage (patterns (track_editing_action kind payload now t)) = tool_usage (patterns t)"
  by (simp add: track_editing_action_def save_patterns_def Let_def)

lemma data_file_track_editing_action:
  "data_file (track_editing_action kind payload now t) =
     Some (patterns (track_editing_action kind payload now t))"
  by (simp add: track_editing_action_def save_patterns_def Let_def)

lemma track_tool_usage_result:
  "\<exists>t'. track_tool_usage tool_name page now t =
            Inr (t', ''Tracked usage of '' @ tool_name @ '' in '' @ page @ '' page'')
      \<and> data_file t' = Some (patterns t')
      \<and> (\<forall>p n. usage_count (tool_usage (patterns t')) p n =
            (if p = page \<and> n = tool_name
             then usage_count (tool_usage (patterns t)) page tool_name + 1
             else usage_count (tool_usage (patterns t)) p n))"
proof (cases "map_of (tool_usage (patterns t)) page")
  case None
  then show ?thesis
    by (simp add: track_tool_usage_def Let_def dict_item_def dict_set_def update_conv'
          tool_usage_track_editing_action data_file_track_editing_action usage_count_def
          dict_get_def)
next
  case (Some tools)
  then show ?thesis
    by (simp add: track_tool_usage_def Let_def dict_item_def dict_set_def update_conv'
          tool_usage_track_editing_action data_file_track_editing_action usage_count_def
          dict_get_def)
qed

lemma track_tool_usage_times_result:
  "\<exists>t'. track_tool_usage_times k tool_name page now t = Inr t'
      \<and> (\<forall>p n. usage_count (tool_usage (patterns t')) p n =
            (if p = page \<and> n = tool_name
             then usage_count (tool_usage (patterns t)) page tool_name + int k
             else usage_count (tool_usage (patterns t)) p n))"
proof (induction k arbitrary: t)
  case 0
  then show ?case by simp
next
  case (Suc k)
  obtain t1 where t1: "track_tool_usage tool_name page now t =
            Inr (t1, ''Tracked usage of '' @ tool_name @ '' in '' @ page @ '' page'')"
    and c1: "\<And>p n. usage_count (tool_usage (patterns t1)) p n =
            (if p = page \<and> n = tool_name
             then usage_count (tool_usage (patterns t)) page tool_name + 1
             else usage_count (tool_usage (patterns t)) p n)"
    using track_tool_usage_result[of tool_name page now t] by blast
  obtain t2 where t2: "track_tool_usage_times k tool_name page now t1 = Inr t2"
    and c2: "\<And>p n. usage_count (tool_usage (patterns t2)) p n =
            (if p = page \<and> n = tool_name
             then usage_count (tool_usage (patterns t1)) page tool_name + int k
             else usage_count (tool_usage (patterns t1)) p n)"
    using Suc.IH[of t1] by blast
  show ?case
    using t1 t2 c1 c2 by simp
qed

lemma usage_count_fresh: "usage_count (tool_usage (patterns fresh_resolve_tracker)) p n = 0"
  by (simp add: fresh_resolve_tracker_def load_patterns_def empty_resolve_patterns_def
        usage_count_def dict_get_def)

text \<open>
  Claim C9. One call of \<^verbatim>\<open>track_tool_usage\<close> never fails, raises the counter of the
  given page and tool by exactly 1 and leaves every other counter as it was, so no
  counter ever decreases; \<open>k\<close> calls raise it by \<open>k\<close>, and three calls for
  ("color", "Qualifier") on a fresh store give the counter 3.
\<close>

theorem tool_usage_counters_monotonic:
  "(\<exists>t' reply. track_tool_usage tool_name page now t = Inr (t', reply)
      \<and> usage_count (tool_usage (patterns t')) page tool_name =
          usage_count (tool_usage (patterns t)) page tool_name + 1
      \<and> (\<forall>p n. (p, n) \<noteq> (page, tool_name) \<longrightarrow>
            usage_count (tool_usage (patterns t')) p n = usage_count (tool_usage (patterns t)) p n)
      \<and> (\<forall>p n. usage_count (tool_usage (patterns t)) p n
                  \<le> usage_count (tool_usage (patterns t')) p n))
   \<and> (\<exists>t'. track_tool_usage_times k tool_name page now t = Inr t'
      \<and> usage_count (tool_usage (patterns t')) page tool_name =
          usage_count (tool_usage (patterns t)) page tool_name + int k)
   \<and> (\<exists>t'. track_tool_usage_times 3 ''Qualifier'' ''color'' now fresh_resolve_tracker = Inr t'
      \<and> usage_count (tool_usage (patterns t')) ''color'' ''Qualifier'' = 3)"
proof -
  have one: "\<exists>t' reply. track_tool_usage tool_name page now t = Inr (t', reply)
      \<and> usage_count (tool_usage (patterns t')) page tool_name =
          usage_count (tool_usage (patterns t)) page tool_name + 1
      \<and> (\<forall>p n. (p, n) \<noteq> (page, tool_name) \<longrightarrow>
            usage_count (tool_usage (patterns t')) p n = usage_count (tool_usage (patterns t)) p n)
      \<and> (\<forall>p n. usage_count (tool_usage (patterns t)) p n
                  \<le> usage_count (tool_usage (patterns t')) p n)"
    using track_tool_usage_result[of tool_name page now t] by auto
  have many: "\<exists>t'. track_tool_usage_times k tool_name page now t = Inr t'
      \<and> usage_count (tool_usage (patterns t')) page tool_name =
          usage_count (tool_usage (patterns t)) page tool_name + int k"
    using track_tool_usage_times_result[of k tool_name page now t] by auto
  have three: "\<exists>t'. track_tool_usage_times 3 ''Qualifier'' ''color'' now fresh_resolve_tracker = Inr t'
      \<and> usage_count (tool_usage (patterns t')) ''color'' ''Qualifier'' = 3"
    using track_tool_usage_times_result[of 3 "''Qualifier''" "''color''" now fresh_resolve_tracker]
    by (auto simp: usage_count_fresh)
  from one many three show ?thesis by blast
qed

theorem tool_usage_counters_monotonic_witness:
  "\<exists>t' reply. track_tool_usage ''Qualifier'' ''color'' ''2024-01-01T00:00:00'' fresh_resolve_tracker
       = Inr (t', reply)
     \<and> usage_count (tool_usage (patterns t')) ''color'' ''Qualifier'' = 1
     \<and> usage_count (tool_usage (patterns t')) ''edit'' ''Blade'' = 0"
  using tool_usage_counters_monotonic[of "''Qualifier''" "''color''" "''2024-01-01T00:00:00''"
          fresh_resolve_tracker 0]
  by (auto simp: usage_count_fresh)


section \<open>The Resolve pattern store: workflow suggestions\<close>

lemma inner_shortcuts:
  "fold (\<lambda>(tool_name, count) acc.
           if 10 < count then acc @ [LearnShortcut tool_name page count] else acc) tools acc =
   acc @ map (\<lambda>(tool_name, count). LearnShortcut tool_name page count)
             (filter (\<lambda>(tool_name, count). 10 < count) tools)"
  by (induction tools arbitrary: acc) (auto split: prod.splits)

lemma shortcut_suggestions_eq:
  "shortcut_suggestions usage acc = acc @ frequent_tools usage"
  unfolding shortcut_suggestions_def frequent_tools_def
  by (induction usage arbitrary: acc) (auto simp: inner_shortcuts split: prod.splits)

lemma set_frequent_tools:
  "set (frequent_tools usage) =
     {LearnShortcut tool_name page count | tool_name page count tools.
        (page, tools) \<in> set usage \<and> (tool_name, count) \<in> set tools \<and> 10 < count}"
  unfolding frequent_tools_def by (auto split: prod.splits) force

lemma sum_list_pos_int: "xs \<noteq> [] \<Longrightarrow> \<forall>x \<in> set xs. (0::int) < x \<Longrightarrow> 0 < sum_list xs"
  by (induction xs) (auto intro: add_pos_nonneg sum_list_nonneg less_imp_le)

lemma average_cut_length_pos:
  assumes "analyze_cut_patterns timeline_data = Inr r"
  shows "0 < average_cut_length r"
proof -
  from assms obtain snapshot where td: "timeline_data = Inr snapshot"
    by (cases timeline_data) (auto simp: analyze_cut_patterns_def)
  define cl where "cl = positive_durations (video_clips_of snapshot)"
  from assms have ne: "cl \<noteq> []"
    and avg: "average_cut_length r = rat_of_int (sum_list cl) / rat_of_nat (length cl)"
    unfolding td analyze_cut_patterns_Inr cl_def by (auto simp: Let_def split: if_splits)
  have "\<forall>x \<in> set cl. 0 < x" by (simp add: cl_def positive_durations_def)
  with ne have "0 < sum_list cl" by (rule sum_list_pos_int)
  moreover from ne have "0 < length cl" by simp
  ultimately show ?thesis unfolding avg by simp
qed

lemma suggest_workflow_optimization_cases:
  "suggest_workflow_optimization t timeline_data =
     (case analyze_cut_patterns timeline_data of
        Inl msg \<Rightarrow>
          if frequent_tools (tool_usage (patterns t)) = [] then [KeepEditing]
          else frequent_tools (tool_usage (patterns t))
      | Inr r \<Rightarrow>
          frequent_tools (tool_usage (patterns t))
            @ (if editing_pace r = ''fast'' then [UseCutPage] else [])
            @ [PacedContent (average_cut_length r)
                 (pace_words ! nat (min 2 (int_trunc (average_cut_length r / 100))))])"
proof (cases "analyze_cut_patterns timeline_data")
  case (Inl msg)
  then show ?thesis
    by (simp add: suggest_workflow_optimization_def shortcut_suggestions_eq Let_def)
next
  case (Inr r)
  with average_cut_length_pos[OF Inr] show ?thesis
    by (simp add: suggest_workflow_optimization_def shortcut_suggestions_eq Let_def)
qed

lemma analyze_fresh_snapshot: "analyze_cut_patterns (Inr fresh_snapshot) = Inl ''No cuts found''"
  by (simp add: analyze_cut_patterns_Inr fresh_snapshot_def snapshot_of_def video_clips_of_def
        positive_durations_def)


text \<open>
  Claim C8, as stated, takes zero recorded data to mean that no suggestion applies.
  The timeline suggestions do not come from recorded data: on a fresh store (no
  session, no tool usage) with the four-clip timeline \<open>four_cuts\<close> open, the answer is
  the pace suggestion and the paced-content line, and no fallback.
\<close>

theorem fresh_store_timeline_suggestions:
  "editing_sessions (patterns fresh_resolve_tracker) = []
   \<and> tool_usage (patterns fresh_resolve_tracker) = []
   \<and> suggest_workflow_optimization fresh_resolve_tracker (Inr four_cuts)
       = [UseCutPage, PacedContent 25 ''quick'']"
proof -
  have fresh: "editing_sessions (patterns fresh_resolve_tracker) = []"
    "tool_usage (patterns fresh_resolve_tracker) = []"
    by (simp_all add: fresh_resolve_tracker_def load_patterns_def empty_resolve_patterns_def)
  have "\<lfloor>1 / 4 :: rat\<rfloor> = 0"
    by (rule floor_unique) simp_all
  then have "suggest_workflow_optimization fresh_resolve_tracker (Inr four_cuts)
       = [UseCutPage, PacedContent 25 ''quick'']"
    unfolding suggest_workflow_optimization_cases analyze_cut_patterns_Inr
      positive_durations_four_cuts
    by (simp add: Let_def fresh frequent_tools_def int_trunc_def pace_words_def)
  with fresh show ?thesis by (intro conjI)
qed

text \<open>
  Claim C8, amended. \<^verbatim>\<open>suggest_workflow_optimization\<close> never returns an empty list; it
  holds a shortcut suggestion for every (page, tool) whose count is above 10; it is the
  single fallback message exactly when no count is above 10 and the analysis of the
  current timeline gives an error (an analysis that succeeds always adds the
  paced-content line, whatever has been recorded); the fallback never appears next to
  another suggestion; and with no recorded tool usage and a timeline analysis that
  gives an error (no timeline, or no cuts) the result is exactly the fallback.
\<close>

theorem suggestions_never_empty:
  "suggest_workflow_optimization t timeline_data \<noteq> []
   \<and> (\<forall>page tools tool_name count.
         (page, tools) \<in> set (tool_usage (patterns t)) \<and> (tool_name, count) \<in> set tools
           \<and> 10 < count
         \<longrightarrow> LearnShortcut tool_name page count
               \<in> set (suggest_workflow_optimization t timeline_data))
   \<and> ((suggest_workflow_optimization t timeline_data = [KeepEditing]) =
        ((\<forall>page tools tool_name count.
            (page, tools) \<in> set (tool_usage (patterns t)) \<and> (tool_name, count) \<in> set tools
            \<longrightarrow> count \<le> 10)
         \<and> isl (analyze_cut_patterns timeline_data)))
   \<and> (KeepEditing \<in> set (suggest_workflow_optimization t timeline_data)
        \<longrightarrow> suggest_workflow_optimization t timeline_data = [KeepEditing])
   \<and> (tool_usage (patterns t) = [] \<and> isl (analyze_cut_patterns timeline_data)
        \<longrightarrow> suggest_workflow_optimization t timeline_data = [KeepEditing])"
proof -
  define ft where "ft = frequent_tools (tool_usage (patterns t))"
  define S where "S = suggest_workflow_optimization t timeline_data"
  define rare where "rare \<longleftrightarrow> (\<forall>page tools tool_name count.
            (page, tools) \<in> set (tool_usage (patterns t)) \<and> (tool_name, count) \<in> set tools
            \<longrightarrow> count \<le> 10)"
  have empty_iff: "(ft = []) = rare"
  proof -
    have "(ft = []) = (set ft = {})" by simp
    also have "\<dots> = rare"
      unfolding ft_def rare_def set_frequent_tools by (auto simp: not_less)
    finally show ?thesis .
  qed
  have mem: "LearnShortcut tool_name page count \<in> set ft"
    if "(page, tools) \<in> set (tool_usage (patterns t))" "(tool_name, count) \<in> set tools"
       "10 < count" for page tools tool_name count
    unfolding ft_def set_frequent_tools using that by blast
  have no_keep: "KeepEditing \<notin> set ft"
    unfolding ft_def set_frequent_tools by simp
  then have ft_ne: "ft \<noteq> [KeepEditing]" by auto
  have no_usage: "ft = []" if "tool_usage (patterns t) = []"
    using that by (simp add: ft_def frequent_tools_def)
  have S_cases: "S = (case analyze_cut_patterns timeline_data of
        Inl msg \<Rightarrow> if ft = [] then [KeepEditing] else ft
      | Inr r \<Rightarrow>
          ft @ (if editing_pace r = ''fast'' then [UseCutPage] else [])
            @ [PacedContent (average_cut_length r)
                 (pace_words ! nat (min 2 (int_trunc (average_cut_length r / 100))))])"
    unfolding S_def ft_def by (rule suggest_workflow_optimization_cases)
  have c1: "S \<noteq> []"
    unfolding S_cases by (simp split: sum.splits)
  have ft_sub: "set ft \<subseteq> set S"
    unfolding S_cases by (auto split: sum.splits)
  have c2: "LearnShortcut tool_name page count \<in> set S"
    if "(page, tools) \<in> set (tool_usage (patterns t)) \<and> (tool_name, count) \<in> set tools
          \<and> 10 < count" for page tools tool_name count
    using mem[of page tools tool_name count] that ft_sub by blast
  have c3: "(S = [KeepEditing]) = (rare \<and> isl (analyze_cut_patterns timeline_data))"
    unfolding S_cases empty_iff[symmetric] using ft_ne
    by (cases "analyze_cut_patterns timeline_data") (auto simp: append_eq_Cons_conv)
  have c4: "KeepEditing \<in> set S \<longrightarrow> S = [KeepEditing]"
    unfolding S_cases using no_keep
    by (cases "analyze_cut_patterns timeline_data") auto
  have c5: "tool_usage (patterns t) = [] \<and> isl (analyze_cut_patterns timeline_data)
              \<longrightarrow> S = [KeepEditing]"
    unfolding S_cases using no_usage
    by (cases "analyze_cut_patterns timeline_data") auto
  have c2': "\<forall>page tools tool_name count.
         (page, tools) \<in> set (tool_usage (patterns t)) \<and> (tool_name, count) \<in> set tools
           \<and> 10 < count
         \<longrightarrow> LearnShortcut tool_name page count \<in> set S"
    using c2 by blast
  have "S \<noteq> []
   \<and> (\<forall>page tools tool_name count.
         (page, tools) \<in> set (tool_usage (patterns t)) \<and> (tool_name, count) \<in> set tools
           \<and> 10 < count
         \<longrightarrow> LearnShortcut tool_name page count \<in> set S)
   \<and> ((S = [KeepEditing]) = (rare \<and> isl (analyze_cut_patterns timeline_data)))
   \<and> (KeepEditing \<in> set S \<longrightarrow> S = [KeepEditing])
   \<and> (tool_usage (patterns t) = [] \<and> isl (analyze_cut_patterns timeline_data)
        \<longrightarrow> S = [KeepEditing])"
    using c1 c2' c3 c4 c5 by (intro conjI)
  then show ?thesis
    unfolding S_def rare_def .
qed

theorem suggestions_never_empty_witness:
  "suggest_workflow_optimization fresh_resolve_tracker (Inr fresh_snapshot) = [KeepEditing]
   \<and> LearnShortcut ''Qualifier'' ''color'' 11
        \<in> set (suggest_workflow_optimization busy_resolve_tracker (Inr fresh_snapshot))
   \<and> LearnShortcut ''Blade'' ''edit'' 25
        \<in> set (suggest_workflow_optimization busy_resolve_tracker (Inr fresh_snapshot))
   \<and> suggest_workflow_optimization busy_resolve_tracker (Inr fresh_snapshot) \<noteq> [KeepEditing]"
proof -
  have fresh: "tool_usage (patterns fresh_resolve_tracker) = []"
    by (simp add: fresh_resolve_tracker_def load_patterns_def empty_resolve_patterns_def)
  have no_cuts: "isl (analyze_cut_patterns (Inr fresh_snapshot))"
    by (simp add: analyze_fresh_snapshot)
  note fallback = suggestions_never_empty[of fresh_resolve_tracker "Inr fresh_snapshot",
      THEN conjunct2, THEN conjunct2, THEN conjunct2, THEN conjunct2]
  have a: "suggest_workflow_optimization fresh_resolve_tracker (Inr fresh_snapshot) = [KeepEditing]"
    using fallback fresh no_cuts by blast
  have in1: "(''color'', [(''Qualifier'', 11), (''Curves'', 10)])
               \<in> set (tool_usage (patterns busy_resolve_tracker))"
    and in2: "(''edit'', [(''Blade'', 25)]) \<in> set (tool_usage (patterns busy_resolve_tracker))"
    by (simp_all add: busy_resolve_tracker_def busy_usage_def)
  have q: "(''Qualifier'', 11) \<in> set [(''Qualifier'', 11), (''Curves'', 10::int)]"
    and bl: "(''Blade'', 25) \<in> set [(''Blade'', 25::int)]"
    and lt: "(10::int) < 11" "(10::int) < 25"
    by simp_all
  note shortcuts = suggestions_never_empty[of busy_resolve_tracker "Inr fresh_snapshot",
      THEN conjunct2, THEN conjunct1, rule_format]
  have b: "LearnShortcut ''Qualifier'' ''color'' 11
        \<in> set (suggest_workflow_optimization busy_resolve_tracker (Inr fresh_snapshot))"
    by (rule shortcuts[where tools = "[(''Qualifier'', 11), (''Curves'', 10)]"])
       (intro conjI in1 q lt(1))
  have c: "LearnShortcut ''Blade'' ''edit'' 25
        \<in> set (suggest_workflow_optimization busy_resolve_tracker (Inr fresh_snapshot))"
    by (rule shortcuts[where tools = "[(''Blade'', 25)]"])
       (intro conjI in2 bl lt(2))
  have d: "suggest_workflow_optimization busy_resolve_tracker (Inr fresh_snapshot) \<noteq> [KeepEditing]"
  proof
    assume "suggest_workflow_optimization busy_resolve_tracker (Inr fresh_snapshot) = [KeepEditing]"
    with b have "LearnShortcut ''Qualifier'' ''color'' 11 \<in> set [KeepEditing]" by simp
    then show False by simp
  qed
  from a b c d show ?thesis by (intro conjI)
qed


section \<open>The watcher's pattern store: aggregated cut patterns\<close>

lemma fold_err_append:
  "fold_err f (xs @ ys) s = (case fold_err f xs s of Inl e \<Rightarrow> Inl e | Inr s' \<Rightarrow> fold_err f ys s')"
  by (induction xs arbitrary: s) (auto split: sum.splits)

lemma fold_err_concat:
  "fold_err (\<lambda>x. fold_err f (g x)) xs s = fold_err f (concat (map g xs)) s"
  by (induction xs arbitrary: s) (auto simp: fold_err_append split: sum.splits)

lemma fold_err_scan_cut:
  "fold_err scan_cut cs (cl, freq) =
     (if \<exists>c \<in> set cs. cut_duration c = None then Inl TypeError
      else Inr (cl @ positive_lengths cs, fold (\<lambda>c freq. bump freq (cut_type c)) cs freq))"
proof (induction cs arbitrary: cl freq)
  case Nil
  then show ?case by (simp add: positive_lengths_def)
next
  case (Cons c cs)
  show ?case
  proof (cases "cut_duration c")
    case None
    then show ?thesis by (simp add: scan_cut_def)
  next
    case (Some len)
    then show ?thesis
      using Cons.IH by (simp add: scan_cut_def positive_lengths_def)
  qed
qed

lemma watcher_analyze_cut_patterns_eq:
  "watcher_analyze_cut_patterns fa doc =
     (if \<exists>c \<in> set (all_cuts doc). cut_duration c = None then Inl TypeError
      else if positive_lengths (all_cuts doc) = [] then Inr None
      else Inr (Some \<lparr> insight_average_cut_length =
                         float_div fa (float_sum fa (positive_lengths (all_cuts doc)))
                           (of_nat (length (positive_lengths (all_cuts doc)))),
                       insight_total_cuts = length (positive_lengths (all_cuts doc)),
                       cut_type_preferences = cut_frequencies_of (all_cuts doc),
                       suggested_cut_length =
                         float_round2 fa
                           (float_div fa (float_sum fa (positive_lengths (all_cuts doc)))
                              (of_nat (length (positive_lengths (all_cuts doc))))) \<rparr>))"
  unfolding watcher_analyze_cut_patterns_def fold_err_concat all_cuts_def[symmetric]
    fold_err_scan_cut cut_frequencies_of_def
  by (simp add: truediv_def)

lemma watcher_analyze_never_divides_by_zero:
  "watcher_analyze_cut_patterns fa doc \<noteq> Inl ZeroDivisionError"
  unfolding watcher_analyze_cut_patterns_eq by simp

lemma watcher_analyze_no_cuts:
  "all_cuts doc = [] \<Longrightarrow> watcher_analyze_cut_patterns fa doc = Inr None"
  unfolding watcher_analyze_cut_patterns_eq by (simp add: positive_lengths_def)

lemma watcher_analyze_numeric:
  assumes "\<forall>c \<in> set (all_cuts doc). cut_duration c \<noteq> None"
    and "watcher_analyze_cut_patterns fa doc = Inr (Some r)"
  shows "positive_lengths (all_cuts doc) \<noteq> []"
    and "insight_average_cut_length r =
           float_div fa (float_sum fa (positive_lengths (all_cuts doc)))
             (of_nat (length (positive_lengths (all_cuts doc))))"
    and "insight_total_cuts r = length (positive_lengths (all_cuts doc))"
    and "suggested_cut_length r = float_round2 fa (insight_average_cut_length r)"
  using assms unfolding watcher_analyze_cut_patterns_eq by (auto split: if_splits)


section \<open>The watcher's pattern store: sessions, actions and cuts\<close>

lemma sessions_fresh_watcher_tracker: "sessions (patterns fresh_watcher_tracker) = []"
  by (simp add: fresh_watcher_tracker_def load_patterns_def empty_watcher_patterns_def)

lemma track_session_start_id:
  "snd (track_session_start project_path now t) = int (length (sessions (patterns t)))"
  by (simp add: track_session_start_def Let_def)

lemma track_session_start_sessions:
  "sessions (patterns (fst (track_session_start project_path now t))) =
     sessions (patterns t) @
       [\<lparr> project = project_path, start_time = now, actions = [], cuts = [], exports = [] \<rparr>]"
  by (simp add: track_session_start_def Let_def)

lemma track_session_start_data_file:
  "data_file (fst (track_session_start project_path now t)) = data_file t"
  by (simp add: track_session_start_def Let_def)

lemma list_index_in_range:
  "0 \<le> i \<Longrightarrow> i < int n \<Longrightarrow> list_index n i = Inr (nat i)"
  by (simp add: list_index_def)

lemma track_action_in_range:
  assumes "0 \<le> i" "i < int (length (sessions (patterns t)))"
  shows "track_action i kind payload now t =
           Inr (save_patterns (t\<lparr>patterns := (patterns t)\<lparr>sessions :=
                  (sessions (patterns t))[nat i :=
                     (sessions (patterns t) ! nat i)\<lparr>actions :=
                        actions (sessions (patterns t) ! nat i) @
                          [\<lparr> timestamp = now, action_type = kind, details = payload \<rparr>]\<rparr>]\<rparr>\<rparr>))"
  using assms by (simp add: track_action_def Let_def list_index_in_range)

lemma track_action_beyond_end:
  "int (length (sessions (patterns t))) \<le> i \<Longrightarrow> track_action i kind payload now t = Inr t"
  by (simp add: track_action_def Let_def)

lemma handle_track_cut_beyond_end:
  "int (length (sessions (patterns t))) \<le> arg_session_id arguments \<Longrightarrow>
     handle_track_cut arguments now t = Inr (t, None)"
  by (simp add: handle_track_cut_def Let_def)

lemma handle_track_cut_in_range:
  assumes "0 \<le> arg_session_id arguments"
    "arg_session_id arguments < int (length (sessions (patterns t)))"
  shows "\<exists>t'. handle_track_cut arguments now t =
             Inr (t', Some (TrackedCut (arg_cut_type arguments) (arg_session_id arguments)))
        \<and> data_file t' = Some (patterns t')
        \<and> length (sessions (patterns t')) = length (sessions (patterns t))
        \<and> cuts (sessions (patterns t') ! nat (arg_session_id arguments)) =
            cuts (sessions (patterns t) ! nat (arg_session_id arguments)) @
              [\<lparr> cut_type = arg_cut_type arguments, cut_duration = arg_duration arguments,
                 reason = arg_reason arguments, cut_timestamp = now \<rparr>]"
  using assms by (simp add: handle_track_cut_def Let_def list_index_in_range save_patterns_def)

lemma sessions_one_session_tracker:
  "sessions (patterns one_session_tracker) =
     [\<lparr> project = ''/projects/a.drp'', start_time = ''2024-01-01T10:00:00'',
        actions = [], cuts = [], exports = [] \<rparr>]"
  by (simp add: one_session_tracker_def track_session_start_sessions
        sessions_fresh_watcher_tracker)

lemma data_file_one_session_tracker: "data_file one_session_tracker = None"
  by (simp add: one_session_tracker_def track_session_start_data_file
        fresh_watcher_tracker_def load_patterns_def)

lemma sessions_two_session_tracker:
  "sessions (patterns two_session_tracker) =
     [\<lparr> project = ''/projects/a.drp'', start_time = ''2024-01-01T10:00:00'',
        actions = [], cuts = [], exports = [] \<rparr>,
      \<lparr> project = ''/projects/b.drp'', start_time = ''2024-01-01T11:00:00'',
        actions = [], cuts = [], exports = [] \<rparr>]"
  by (simp add: two_session_tracker_def track_session_start_sessions
        sessions_one_session_tracker)

text \<open>
  Claim C6. \<^verbatim>\<open>track_session_start\<close> appends the new session and returns the new length
  of the session list minus one, so on an empty store two calls in sequence return 0
  and then 1; recording an action against id 1 then leaves session 0 (its project,
  start time, actions, cuts and exports) as it was and puts the action into session 1.
  In general an action recorded against an id \<open>0 \<le> i < len\<close> changes no other session.
\<close>

theorem start_session_ids:
  "(case track_session_start p0 now0 fresh_watcher_tracker of (t1, id0) \<Rightarrow>
      case track_session_start p1 now1 t1 of (t2, id1) \<Rightarrow>
        id0 = 0 \<and> id1 = 1
      \<and> (\<exists>t3. track_action 1 kind payload now2 t2 = Inr t3
             \<and> length (sessions (patterns t3)) = 2
             \<and> sessions (patterns t3) ! 0 = sessions (patterns t2) ! 0
             \<and> sessions (patterns t3) ! 0 =
                 \<lparr> project = p0, start_time = now0, actions = [], cuts = [], exports = [] \<rparr>
             \<and> actions (sessions (patterns t3) ! 1) =
                 [\<lparr> timestamp = now2, action_type = kind, details = payload \<rparr>]))
   \<and> snd (track_session_start p now t) = int (length (sessions (patterns (fst (track_session_start p now t))))) - 1
   \<and> sessions (patterns (fst (track_session_start p now t))) =
       sessions (patterns t) @
         [\<lparr> project = p, start_time = now, actions = [], cuts = [], exports = [] \<rparr>]
   \<and> (0 \<le> i \<and> i < int (length (sessions (patterns t))) \<longrightarrow>
        (\<exists>t'. track_action i kind payload now t = Inr t'
            \<and> length (sessions (patterns t')) = length (sessions (patterns t))
            \<and> (\<forall>j < length (sessions (patterns t)). j \<noteq> nat i \<longrightarrow>
                  sessions (patterns t') ! j = sessions (patterns t) ! j)))"
proof -
  obtain t1 id0 where s1: "track_session_start p0 now0 fresh_watcher_tracker = (t1, id0)"
    by (cases "track_session_start p0 now0 fresh_watcher_tracker")
  obtain t2 id1 where s2: "track_session_start p1 now1 t1 = (t2, id1)"
    by (cases "track_session_start p1 now1 t1")
  have id0: "id0 = 0"
    using track_session_start_id[of p0 now0 fresh_watcher_tracker]
    by (simp add: s1 sessions_fresh_watcher_tracker)
  have ss1: "sessions (patterns t1) =
       [\<lparr> project = p0, start_time = now0, actions = [], cuts = [], exports = [] \<rparr>]"
    using track_session_start_sessions[of p0 now0 fresh_watcher_tracker]
    by (simp add: s1 sessions_fresh_watcher_tracker)
  have id1: "id1 = 1"
    using track_session_start_id[of p1 now1 t1] by (simp add: s2 ss1)
  have ss2: "sessions (patterns t2) =
       [\<lparr> project = p0, start_time = now0, actions = [], cuts = [], exports = [] \<rparr>,
        \<lparr> project = p1, start_time = now1, actions = [], cuts = [], exports = [] \<rparr>]"
    using track_session_start_sessions[of p1 now1 t1] by (simp add: s2 ss1)
  have act: "\<exists>t3. track_action 1 kind payload now2 t2 = Inr t3
             \<and> length (sessions (patterns t3)) = 2
             \<and> sessions (patterns t3) ! 0 = sessions (patterns t2) ! 0
             \<and> sessions (patterns t3) ! 0 =
                 \<lparr> project = p0, start_time = now0, actions = [], cuts = [], exports = [] \<rparr>
             \<and> actions (sessions (patterns t3) ! 1) =
                 [\<lparr> timestamp = now2, action_type = kind, details = payload \<rparr>]"
    using track_action_in_range[of 1 t2 kind payload now2]
    by (simp add: ss2 save_patterns_def)
  have first: "(case track_session_start p0 now0 fresh_watcher_tracker of (t1, id0) \<Rightarrow>
      case track_session_start p1 now1 t1 of (t2, id1) \<Rightarrow>
        id0 = 0 \<and> id1 = 1
      \<and> (\<exists>t3. track_action 1 kind payload now2 t2 = Inr t3
             \<and> length (sessions (patterns t3)) = 2
             \<and> sessions (patterns t3) ! 0 = sessions (patterns t2) ! 0
             \<and> sessions (patterns t3) ! 0 =
                 \<lparr> project = p0, start_time = now0, actions = [], cuts = [], exports = [] \<rparr>
             \<and> actions (sessions (patterns t3) ! 1) =
                 [\<lparr> timestamp = now2, action_type = kind, details = payload \<rparr>]))"
    unfolding s1 prod.case s2 using id0 id1 act by (intro conjI)
  have second: "snd (track_session_start p now t)
      = int (length (sessions (patterns (fst (track_session_start p now t))))) - 1"
    by (simp add: track_session_start_id track_session_start_sessions)
  have frame: "0 \<le> i \<and> i < int (length (sessions (patterns t))) \<longrightarrow>
        (\<exists>t'. track_action i kind payload now t = Inr t'
            \<and> length (sessions (patterns t')) = length (sessions (patterns t))
            \<and> (\<forall>j < length (sessions (patterns t)). j \<noteq> nat i \<longrightarrow>
                  sessions (patterns t') ! j = sessions (patterns t) ! j))"
  proof
    assume "0 \<le> i \<and> i < int (length (sessions (patterns t)))"
    then show "\<exists>t'. track_action i kind payload now t = Inr t'
            \<and> length (sessions (patterns t')) = length (sessions (patterns t))
            \<and> (\<forall>j < length (sessions (patterns t)). j \<noteq> nat i \<longrightarrow>
                  sessions (patterns t') ! j = sessions (patterns t) ! j)"
      using track_action_in_range[of i t kind payload now]
      by (simp add: save_patterns_def)
  qed
  from first second track_session_start_sessions[of p now t] frame
  show ?thesis by (intro conjI)
qed

theorem start_session_ids_witness:
  "snd (track_session_start ''/projects/a.drp'' ''2024-01-01T10:00:00'' fresh_watcher_tracker) = 0
   \<and> snd (track_session_start ''/projects/b.drp'' ''2024-01-01T11:00:00'' one_session_tracker) = 1
   \<and> (0::int) \<le> 1 \<and> (1::int) < int (length (sessions (patterns two_session_tracker)))
   \<and> (\<exists>t'. track_action 1 ''workflow_step'' (WorkflowStep ''import'' None)
              ''2024-01-01T12:00:00'' two_session_tracker = Inr t'
          \<and> sessions (patterns t') ! 0 = sessions (patterns two_session_tracker) ! 0)"
proof -
  have len: "length (sessions (patterns two_session_tracker)) = 2"
    by (simp add: sessions_two_session_tracker)
  have a: "snd (track_session_start ''/projects/a.drp'' ''2024-01-01T10:00:00''
             fresh_watcher_tracker) = 0"
    using start_session_ids[where p = "''/projects/a.drp''" and now = "''2024-01-01T10:00:00''"
        and t = fresh_watcher_tracker, THEN conjunct2, THEN conjunct1]
    by (simp add: track_session_start_sessions sessions_fresh_watcher_tracker)
  have b: "snd (track_session_start ''/projects/b.drp'' ''2024-01-01T11:00:00''
             one_session_tracker) = 1"
    using start_session_ids[where p = "''/projects/b.drp''" and now = "''2024-01-01T11:00:00''"
        and t = one_session_tracker, THEN conjunct2, THEN conjunct1]
    by (simp add: track_session_start_sessions sessions_one_session_tracker)
  have range: "(0::int) \<le> 1 \<and> (1::int) < int (length (sessions (patterns two_session_tracker)))"
    by (simp add: len)
  from start_session_ids[where kind = "''workflow_step''"
        and payload = "WorkflowStep ''import'' None" and now = "''2024-01-01T12:00:00''"
        and t = two_session_tracker and i = 1,
        THEN conjunct2, THEN conjunct2, THEN conjunct2, rule_format, OF range]
  obtain t' where t': "track_action 1 ''workflow_step'' (WorkflowStep ''import'' None)
              ''2024-01-01T12:00:00'' two_session_tracker = Inr t'"
    and keep: "\<forall>j < length (sessions (patterns two_session_tracker)). j \<noteq> nat 1 \<longrightarrow>
                  sessions (patterns t') ! j = sessions (patterns two_session_tracker) ! j"
    by blast
  from keep have "sessions (patterns t') ! 0 = sessions (patterns two_session_tracker) ! 0"
    by (simp add: len)
  with a b range t' show ?thesis by blast
qed

text \<open>
  Claim C5, at the session id \<open>-1\<close>. The guard of \<^verbatim>\<open>track_action\<close> is
  \<^verbatim>\<open>session_id < len(sessions)\<close> only, and a negative index of a Python list counts
  from the end. On a store with one session the call with id \<open>-1\<close> therefore appends
  the action to session 0 and writes the document to the file, and on an empty store
  it raises \<^verbatim>\<open>IndexError\<close>; in neither case is it a silent no-op. (For ids at or beyond
  the length it is one: lemma \<open>track_action_beyond_end\<close>.)
\<close>

theorem track_action_negative_session_id:
  "(\<exists>t'. track_action (- 1) ''workflow_step'' (WorkflowStep ''import'' None)
            ''2024-01-01T12:00:00'' one_session_tracker = Inr t'
        \<and> actions (sessions (patterns one_session_tracker) ! 0) = []
        \<and> actions (sessions (patterns t') ! 0) = [import_step]
        \<and> data_file one_session_tracker = None
        \<and> data_file t' = Some (patterns t'))
   \<and> track_action (- 1) ''workflow_step'' (WorkflowStep ''import'' None)
        ''2024-01-01T12:00:00'' fresh_watcher_tracker = Inl IndexError"
  by (simp add: track_action_def Let_def list_index_def sessions_one_session_tracker
        sessions_fresh_watcher_tracker data_file_one_session_tracker save_patterns_def
        import_step_def)

text \<open>
  Claim C10, at the session id \<open>-1\<close>. The \<^verbatim>\<open>track_cut\<close> handler has the same guard
  \<^verbatim>\<open>session_id < len(sessions)\<close>. With one recorded session the id \<open>-1\<close> is not the id of
  any session, yet the handler appends the cut to session 0, writes the document to
  the file and returns the acknowledgement for "session -1"; on an empty store it
  raises \<^verbatim>\<open>IndexError\<close>. For the id 1, beyond the end, it returns \<^verbatim>\<open>None\<close> and leaves
  the tracker untouched (in general: lemma \<open>handle_track_cut_beyond_end\<close>; for
  \<open>0 \<le> id < len\<close>: lemma \<open>handle_track_cut_in_range\<close>).
\<close>

theorem handle_track_cut_negative_session_id:
  "(\<exists>t'. handle_track_cut (hard_cut_arguments (- 1)) ''2024-01-01T12:00:00'' one_session_tracker
            = Inr (t', Some (TrackedCut ''hard_cut'' (- 1)))
        \<and> cuts (sessions (patterns one_session_tracker) ! 0) = []
        \<and> cuts (sessions (patterns t') ! 0) =
            [\<lparr> cut_type = ''hard_cut'', cut_duration = Some 2, reason = None,
               cut_timestamp = ''2024-01-01T12:00:00'' \<rparr>]
        \<and> data_file one_session_tracker = None
        \<and> data_file t' = Some (patterns t'))
   \<and> handle_track_cut (hard_cut_arguments (- 1)) ''2024-01-01T12:00:00'' fresh_watcher_tracker
        = Inl IndexError
   \<and> handle_track_cut (hard_cut_arguments 1) ''2024-01-01T12:00:00'' one_session_tracker
        = Inr (one_session_tracker, None)"
  by (simp add: handle_track_cut_def Let_def list_index_def sessions_one_session_tracker
        sessions_fresh_watcher_tracker data_file_one_session_tracker save_patterns_def
        hard_cut_arguments_def)


section \<open>The watcher's pattern store: aggregation after an untimed cut\<close>

text \<open>
  Claim C4, on a store the \<^verbatim>\<open>track_cut\<close> tool itself builds. Session 0 first gets a cut
  of duration 2, then a cut tracked without the optional duration, which the handler
  stores as \<^verbatim>\<open>None\<close>. The positive durations recorded are then just \<open>[2]\<close>, so the
  average should be 2 / 1; but \<^verbatim>\<open>analyze_cut_patterns\<close> compares \<^verbatim>\<open>None > 0\<close> and raises
  \<^verbatim>\<open>TypeError\<close>, whatever the floating-point arithmetic is. (It never divides by zero
  and returns the empty result when no cut is recorded: lemmas
  \<open>watcher_analyze_never_divides_by_zero\<close> and \<open>watcher_analyze_no_cuts\<close>; for stores
  whose cuts all have a duration: lemma \<open>watcher_analyze_numeric\<close>.)
\<close>

theorem aggregate_cut_patterns_untimed_cut:
  "(case handle_track_cut (hard_cut_arguments 0) ''2024-01-01T12:00:00'' one_session_tracker of
      Inl e \<Rightarrow> False
    | Inr (t1, reply1) \<Rightarrow>
        reply1 = Some (TrackedCut ''hard_cut'' 0)
      \<and> (case handle_track_cut (untimed_cut_arguments 0) ''2024-01-01T12:05:00'' t1 of
            Inl e \<Rightarrow> False
          | Inr (t2, reply2) \<Rightarrow>
              reply2 = Some (TrackedCut ''jump_cut'' 0)
            \<and> map cut_duration (all_cuts (patterns t2)) = [Some 2, None]
            \<and> positive_lengths (all_cuts (patterns t2)) = [2]
            \<and> watcher_analyze_cut_patterns fa (patterns t2) = Inl TypeError))"
  by (simp add: handle_track_cut_def Let_def list_index_def sessions_one_session_tracker
        save_patterns_def hard_cut_arguments_def untimed_cut_arguments_def
        watcher_analyze_cut_patterns_eq all_cuts_def positive_lengths_def)

end
